theory Spec2Isabelle
  imports Complex_Main "HOL-Library.Word" "HOL-Library.Product_Lexorder"
    "HOL-Library.List_Lexorder" "HOL-Library.AList"
begin

section \<open>Data model\<close>

text \<open>
  The pipeline of \<^verbatim>\<open>data/climate_data.py\<close> works on labelled arrays (xarray) and tables
  (pandas). The embedding keeps their structure:
  \<^item> a timestamp is a calendar date (year, month, day), ordered lexicographically; the monthly
    series of the source carries one timestamp per month;
  \<^item> a coordinate axis is a list of labels; a position along an axis is a natural number;
  \<^item> an array value is a \<open>real option\<close>: \<open>None\<close> is the missing value (NaN), and arithmetic
    is exact (the rounding of \<^verbatim>\<open>astype("float32")\<close> is outside the model);
  \<^item> the values of an array are a function of an index, which gives a position for every
    dimension name, as xarray addresses arrays by named dimensions;
  \<^item> every data variable of a dataset spans all coordinates of the dataset, and every
    coordinate is a dimension coordinate (the gridded field of the pipeline);
  \<^item> a Python exception is a value \<open>Inl e\<close> of the result.
\<close>

datatype py_error =
  KeyError | ValueError | IndexError | TypeError | AttributeError
  | FileExistsError | FileNotFoundError | RequestError

type_synonym timestamp = "int \<times> nat \<times> nat"

definition year_of :: "timestamp \<Rightarrow> int" where
  "year_of t = fst t"

definition month_of :: "timestamp \<Rightarrow> nat" where
  "month_of t = fst (snd t)"

definition day_of :: "timestamp \<Rightarrow> nat" where
  "day_of t = snd (snd t)"

datatype axis = TimeAxis "timestamp list" | NumAxis "real list" | IntAxis "int list"

fun axis_size :: "axis \<Rightarrow> nat" where
  "axis_size (TimeAxis ts) = length ts"
| "axis_size (NumAxis ls) = length ls"
| "axis_size (IntAxis ks) = length ks"

type_synonym index = "string \<Rightarrow> nat"

record variable =
  vals :: "index \<Rightarrow> real option"
  attrs :: "(string \<times> string) list"

record data_array =
  da_coords :: "(string \<times> axis) list"
  da_vals :: "index \<Rightarrow> real option"
  da_attrs :: "(string \<times> string) list"

record dataset =
  coords :: "(string \<times> axis) list"
  data_vars :: "(string \<times> variable) list"

definition coord_names :: "dataset \<Rightarrow> string list" where
  "coord_names ds = map fst (coords ds)"

definition var_names :: "dataset \<Rightarrow> string list" where
  "var_names ds = map fst (data_vars ds)"

text \<open>The position a list of selected positions gives for position \<open>k\<close> of the result.\<close>

definition pos_at :: "nat list \<Rightarrow> nat \<Rightarrow> nat" where
  "pos_at ps k = (if k < length ps then ps ! k else k)"

text \<open>Positional selection along one dimension (\<^verbatim>\<open>isel\<close>): position \<open>k\<close> of the result
  reads position \<open>ps ! k\<close> of the source.\<close>

definition isel_vals :: "string \<Rightarrow> nat list \<Rightarrow> (index \<Rightarrow> real option) \<Rightarrow> (index \<Rightarrow> real option)" where
  "isel_vals d ps f = (\<lambda>idx. f (idx(d := pos_at ps (idx d))))"

fun take_axis :: "axis \<Rightarrow> nat list \<Rightarrow> axis" where
  "take_axis (TimeAxis ts) ps = TimeAxis (map (\<lambda>k. ts ! k) ps)"
| "take_axis (NumAxis ls) ps = NumAxis (map (\<lambda>k. ls ! k) ps)"
| "take_axis (IntAxis ks) ps = IntAxis (map (\<lambda>k. ks ! k) ps)"

definition isel_coords :: "string \<Rightarrow> nat list \<Rightarrow> (string \<times> axis) list \<Rightarrow> (string \<times> axis) list" where
  "isel_coords d ps cs =
     (case map_of cs d of
        None \<Rightarrow> cs
      | Some ax \<Rightarrow> AList.update d (take_axis ax ps) cs)"

section \<open>Grid normalizer: \<^verbatim>\<open>load_and_clean\<close>\<close>

text \<open>
  \<^verbatim>\<open>Dataset.rename({old: new})\<close>: xarray refuses a new name that an existing variable or
  coordinate already has (ValueError: the new name conflicts). The renamed dimension is
  renamed in every variable.
\<close>

definition rename :: "string \<Rightarrow> string \<Rightarrow> dataset \<Rightarrow> py_error + dataset" where
  "rename old new ds =
     (if new \<in> set (coord_names ds) \<or> new \<in> set (var_names ds) then Inl ValueError
      else Inr (ds\<lparr>coords := map (\<lambda>(n, a). (if n = old then new else n, a)) (coords ds),
                    data_vars := map (\<lambda>(n, v). (n, v\<lparr>vals := (\<lambda>idx. vals v (idx(old := idx new)))\<rparr>))
                                   (data_vars ds)\<rparr>))"

text \<open>Lines 137--141: the time coordinate is renamed to \<^verbatim>\<open>time\<close>.\<close>

definition standardize_time :: "dataset \<Rightarrow> py_error + dataset" where
  "standardize_time ds =
     (if ''valid_time'' \<in> set (coord_names ds) then rename ''valid_time'' ''time'' ds
      else if ''date'' \<in> set (coord_names ds) \<and> ''time'' \<notin> set (coord_names ds)
        then rename ''date'' ''time'' ds
      else Inr ds)"

text \<open>Python's \<^verbatim>\<open>%\<close> on floats with a positive divisor: the result has the divisor's sign.\<close>

definition py_mod :: "real \<Rightarrow> real \<Rightarrow> real" where
  "py_mod x m = x - m * of_int \<lfloor>x / m\<rfloor>"

definition wrap_lon :: "real \<Rightarrow> real" where
  "wrap_lon l = py_mod (l + 180) 360 - 180"

definition wrap_lon_int :: "int \<Rightarrow> int" where
  "wrap_lon_int l = (l + 180) mod 360 - 180"

text \<open>\<^verbatim>\<open>ds.assign_coords(longitude=(((ds.longitude + 180) % 360) - 180))\<close>: the labels are
  replaced in place; arithmetic on a datetime axis is a type error.\<close>

definition assign_longitude :: "dataset \<Rightarrow> py_error + dataset" where
  "assign_longitude ds =
     (case map_of (coords ds) ''longitude'' of
        None \<Rightarrow> Inl KeyError
      | Some (TimeAxis ts) \<Rightarrow> Inl TypeError
      | Some (NumAxis ls) \<Rightarrow>
          Inr (ds\<lparr>coords := AList.update ''longitude'' (NumAxis (map wrap_lon ls)) (coords ds)\<rparr>)
      | Some (IntAxis ks) \<Rightarrow>
          Inr (ds\<lparr>coords := AList.update ''longitude'' (IntAxis (map wrap_lon_int ks)) (coords ds)\<rparr>))"

text \<open>\<^verbatim>\<open>ds.sortby(name)\<close>: a stable ascending argsort of the labels; every variable is
  reordered along that dimension by the same permutation.\<close>

fun argsort :: "axis \<Rightarrow> nat list" where
  "argsort (TimeAxis ts) = sort_key (\<lambda>k. ts ! k) [0..<length ts]"
| "argsort (NumAxis ls) = sort_key (\<lambda>k. ls ! k) [0..<length ls]"
| "argsort (IntAxis ks) = sort_key (\<lambda>k. ks ! k) [0..<length ks]"

definition sortby :: "string \<Rightarrow> dataset \<Rightarrow> py_error + dataset" where
  "sortby d ds =
     (case map_of (coords ds) d of
        None \<Rightarrow> Inl KeyError
      | Some ax \<Rightarrow>
          Inr (ds\<lparr>coords := isel_coords d (argsort ax) (coords ds),
                  data_vars := map (\<lambda>(n, v). (n, v\<lparr>vals := isel_vals d (argsort ax) (vals v)\<rparr>))
                                 (data_vars ds)\<rparr>))"

text \<open>Lines 143--149.\<close>

definition fix_longitude :: "dataset \<Rightarrow> py_error + dataset" where
  "fix_longitude ds =
     (if ''longitude'' \<in> set (coord_names ds) then
        (case assign_longitude ds of
           Inl e \<Rightarrow> Inl e
         | Inr ds1 \<Rightarrow> sortby ''longitude'' ds1)
      else Inr ds)"

text \<open>\<^verbatim>\<open>str.lower\<close> and \<^verbatim>\<open>str.startswith\<close>, on ASCII strings (unit attributes are ASCII).\<close>

definition lower_char :: "char \<Rightarrow> char" where
  "lower_char c =
     (if 65 \<le> (of_char c :: nat) \<and> (of_char c :: nat) \<le> 90 then char_of (of_char c + 32 :: nat) else c)"

definition lower :: "string \<Rightarrow> string" where
  "lower s = map lower_char s"

definition startswith :: "string \<Rightarrow> string \<Rightarrow> bool" where
  "startswith s p = (take (length p) s = p)"

text \<open>Line 153: the test that gates the conversion of one variable.\<close>

definition is_kelvin :: "variable \<Rightarrow> bool" where
  "is_kelvin v =
     (case map_of (attrs v) ''units'' of
        None \<Rightarrow> False
      | Some u \<Rightarrow> startswith (lower u) ''k'')"

text \<open>Lines 154--155. Array arithmetic drops the attributes of its operand (xarray's
  default \<^verbatim>\<open>keep_attrs=False\<close>); the unit is then written into the new variable.\<close>

definition to_celsius :: "variable \<Rightarrow> variable" where
  "to_celsius v =
     \<lparr>vals = (\<lambda>idx. map_option (\<lambda>x. x - 273.15) (vals v idx)), attrs = [(''units'', ''C'')]\<rparr>"

text \<open>Lines 152--155: the loop over \<^verbatim>\<open>list(ds.data_vars)\<close>; an assignment to an existing
  variable keeps its place in the dataset.\<close>

fun convert_loop :: "string list \<Rightarrow> dataset \<Rightarrow> dataset" where
  "convert_loop [] ds = ds"
| "convert_loop (var # rest) ds =
     convert_loop rest
       (case map_of (data_vars ds) var of
          None \<Rightarrow> ds
        | Some v \<Rightarrow>
            if is_kelvin v then ds\<lparr>data_vars := AList.update var (to_celsius v) (data_vars ds)\<rparr>
            else ds)"

definition kelvin_to_celsius :: "dataset \<Rightarrow> dataset" where
  "kelvin_to_celsius ds = convert_loop (var_names ds) ds"

text \<open>\<^verbatim>\<open>load_and_clean\<close>, from the dataset that \<^verbatim>\<open>xr.open_dataset(path)\<close> returns (reading
  and decoding the file is outside the model).\<close>

definition load_and_clean :: "dataset \<Rightarrow> py_error + dataset" where
  "load_and_clean ds0 =
     (case standardize_time ds0 of
        Inl e \<Rightarrow> Inl e
      | Inr ds1 \<Rightarrow>
          (case fix_longitude ds1 of
             Inl e \<Rightarrow> Inl e
           | Inr ds2 \<Rightarrow> Inr (kelvin_to_celsius ds2)))"

section \<open>Climatology engine: \<^verbatim>\<open>monthly_anomaly_from_monthly\<close>\<close>

text \<open>\<^verbatim>\<open>ds[name]\<close>: the variable with the coordinates of its dataset.\<close>

definition getitem :: "dataset \<Rightarrow> string \<Rightarrow> py_error + data_array" where
  "getitem ds name =
     (case map_of (data_vars ds) name of
        None \<Rightarrow> Inl KeyError
      | Some v \<Rightarrow> Inr \<lparr>da_coords = coords ds, da_vals = vals v, da_attrs = attrs v\<rparr>)"

text \<open>
  \<^verbatim>\<open>sel(time=slice(lo, hi))\<close> with date strings, on an increasing time index: the labels
  from \<open>lo\<close> to \<open>hi\<close>, both included. The bounds of the source are
  \<^verbatim>\<open>f"{year}-01-01"\<close> and \<^verbatim>\<open>f"{year}-12-31"\<close>.
\<close>

definition jan_first :: "int \<Rightarrow> timestamp" where
  "jan_first y = (y, 1, 1)"

definition dec_last :: "int \<Rightarrow> timestamp" where
  "dec_last y = (y, 12, 31)"

definition in_slice :: "timestamp \<Rightarrow> timestamp \<Rightarrow> timestamp \<Rightarrow> bool" where
  "in_slice lo hi t = (lo \<le> t \<and> t \<le> hi)"

definition slice_positions :: "timestamp \<Rightarrow> timestamp \<Rightarrow> timestamp list \<Rightarrow> nat list" where
  "slice_positions lo hi ts = filter (\<lambda>k. in_slice lo hi (ts ! k)) [0..<length ts]"

definition time_positions :: "(string \<times> axis) list \<Rightarrow> timestamp \<Rightarrow> timestamp \<Rightarrow> py_error + nat list" where
  "time_positions cs lo hi =
     (case map_of cs ''time'' of
        None \<Rightarrow> Inl KeyError
      | Some (TimeAxis ts) \<Rightarrow> Inr (slice_positions lo hi ts)
      | Some (NumAxis ls) \<Rightarrow> Inl TypeError
      | Some (IntAxis ks) \<Rightarrow> Inl TypeError)"

definition sel_time :: "timestamp \<Rightarrow> timestamp \<Rightarrow> data_array \<Rightarrow> py_error + data_array" where
  "sel_time lo hi da =
     (case time_positions (da_coords da) lo hi of
        Inl e \<Rightarrow> Inl e
      | Inr ps \<Rightarrow>
          Inr (da\<lparr>da_coords := isel_coords ''time'' ps (da_coords da),
                  da_vals := isel_vals ''time'' ps (da_vals da)\<rparr>))"

text \<open>Reductions skip missing values (\<^verbatim>\<open>skipna\<close>); a reduction of no value is missing.\<close>

fun present :: "real option list \<Rightarrow> real list" where
  "present [] = []"
| "present (None # vs) = present vs"
| "present (Some x # vs) = x # present vs"

definition mean_skipna :: "real option list \<Rightarrow> real option" where
  "mean_skipna vs =
     (if present vs = [] then None
      else Some (sum_list (present vs) / real (length (present vs))))"

definition minus_opt :: "real option \<Rightarrow> real option \<Rightarrow> real option" where
  "minus_opt a b =
     (case a of
        None \<Rightarrow> None
      | Some x \<Rightarrow> (case b of None \<Rightarrow> None | Some y \<Rightarrow> Some (x - y)))"

fun index_of :: "'a \<Rightarrow> 'a list \<Rightarrow> nat option" where
  "index_of x [] = None"
| "index_of x (y # ys) = (if x = y then Some 0 else map_option Suc (index_of x ys))"

text \<open>The groups of \<^verbatim>\<open>groupby("time.month")\<close>: the calendar months of the time axis,
  unique and ascending; the members of a group are the positions of its month.\<close>

definition group_labels :: "timestamp list \<Rightarrow> nat list" where
  "group_labels ts = sort (remdups (map month_of ts))"

definition group_members :: "timestamp list \<Rightarrow> nat \<Rightarrow> nat list" where
  "group_members ts q =
     (if q < length (group_labels ts)
      then filter (\<lambda>k. month_of (ts ! k) = group_labels ts ! q) [0..<length ts]
      else [])"

text \<open>
  \<^verbatim>\<open>da.groupby("time.month").mean("time")\<close>. xarray refuses to group by an empty
  variable (ValueError: month must not be empty). The result has the dimension
  \<^verbatim>\<open>month\<close> in the place of \<^verbatim>\<open>time\<close>; the reduction drops the attributes.
\<close>

definition groupby_month_mean :: "data_array \<Rightarrow> py_error + data_array" where
  "groupby_month_mean da =
     (case map_of (da_coords da) ''time'' of
        None \<Rightarrow> Inl KeyError
      | Some (TimeAxis ts) \<Rightarrow>
          if ts = [] then Inl ValueError
          else Inr \<lparr>da_coords =
                      map (\<lambda>(n, a). if n = ''time'' then (''month'', IntAxis (map int (group_labels ts)))
                                     else (n, a)) (da_coords da),
                    da_vals = (\<lambda>idx. mean_skipna
                                (map (\<lambda>k. da_vals da (idx(''time'' := k)))
                                     (group_members ts (idx ''month'')))),
                    da_attrs = []\<rparr>
      | Some (NumAxis ls) \<Rightarrow> Inl AttributeError
      | Some (IntAxis ks) \<Rightarrow> Inl AttributeError)"

text \<open>
  \<^verbatim>\<open>da.groupby("time.month") - clim\<close>: every time step is paired with the entry of
  \<open>clim\<close> that carries its month; a month that \<open>clim\<close> does not carry gives missing values.
\<close>

definition groupby_month_minus :: "data_array \<Rightarrow> data_array \<Rightarrow> py_error + data_array" where
  "groupby_month_minus da clim =
     (case map_of (da_coords da) ''time'' of
        None \<Rightarrow> Inl KeyError
      | Some (TimeAxis ts) \<Rightarrow>
          if ts = [] then Inl ValueError
          else
            (case map_of (da_coords clim) ''month'' of
               Some (IntAxis ms) \<Rightarrow>
                 Inr \<lparr>da_coords = da_coords da,
                      da_vals = (\<lambda>idx.
                        if idx ''time'' < length ts then
                          (case index_of (int (month_of (ts ! idx ''time''))) ms of
                             None \<Rightarrow> None
                           | Some q \<Rightarrow> minus_opt (da_vals da idx) (da_vals clim (idx(''month'' := q))))
                        else None),
                      da_attrs = []\<rparr>
             | _ \<Rightarrow> Inl ValueError)
      | Some (NumAxis ls) \<Rightarrow> Inl AttributeError
      | Some (IntAxis ks) \<Rightarrow> Inl AttributeError)"

text \<open>Lines 159--182. \<^verbatim>\<open>astype("float32")\<close> keeps the attributes and, in exact arithmetic,
  the values.\<close>

definition monthly_anomaly_from_monthly :: "dataset \<Rightarrow> int \<Rightarrow> int \<Rightarrow> py_error + dataset" where
  "monthly_anomaly_from_monthly ds_monthly baseline_start baseline_end =
     (case var_names ds_monthly of
        [] \<Rightarrow> Inl IndexError
      | var_name # _ \<Rightarrow>
          (case getitem ds_monthly var_name of
             Inl e \<Rightarrow> Inl e
           | Inr t2m \<Rightarrow>
               (case sel_time (jan_first baseline_start) (dec_last baseline_end) t2m of
                  Inl e \<Rightarrow> Inl e
                | Inr base \<Rightarrow>
                    (case groupby_month_mean base of
                       Inl e \<Rightarrow> Inl e
                     | Inr clim \<Rightarrow>
                         (case groupby_month_minus t2m clim of
                            Inl e \<Rightarrow> Inl e
                          | Inr anom \<Rightarrow>
                              Inr \<lparr>coords = da_coords t2m,
                                   data_vars =
                                     [(''t2m_mean_c'', \<lparr>vals = da_vals t2m, attrs = da_attrs t2m\<rparr>),
                                      (''t2m_anomaly_c'', \<lparr>vals = da_vals anom, attrs = da_attrs anom\<rparr>)]\<rparr>)))))"



section \<open>Tables\<close>

text \<open>
  A pandas table: the column labels in order, and the rows, each with its index label. A
  row gives a cell for a column label; only the labels of \<open>columns\<close> are part of the table.
  The dtypes of the source are kept: \<^verbatim>\<open>int16\<close> and \<^verbatim>\<open>int8\<close> cells are machine words.
\<close>

datatype cell =
  TimeCell timestamp | NumCell real | IntCell int
  | Int16Cell "16 word" | Int8Cell "8 word" | FloatCell "real option"

record dataframe =
  columns :: "string list"
  rows :: "(nat \<times> (string \<Rightarrow> cell)) list"

fun label_cell :: "axis \<Rightarrow> nat \<Rightarrow> cell" where
  "label_cell (TimeAxis ts) k = TimeCell (ts ! k)"
| "label_cell (NumAxis ls) k = NumCell (ls ! k)"
| "label_cell (IntAxis ks) k = IntCell (ks ! k)"

text \<open>All positions of a grid, the first dimension varying slowest.\<close>

fun all_indices :: "(string \<times> axis) list \<Rightarrow> index list" where
  "all_indices [] = [\<lambda>d. 0]"
| "all_indices ((d, ax) # cs) =
     concat (map (\<lambda>k. map (\<lambda>idx. idx(d := k)) (all_indices cs)) [0..<axis_size ax])"

definition row_of :: "dataset \<Rightarrow> index \<Rightarrow> string \<Rightarrow> cell" where
  "row_of ds idx c =
     (case map_of (coords ds) c of
        Some ax \<Rightarrow> label_cell ax (idx c)
      | None \<Rightarrow>
          (case map_of (data_vars ds) c of
             Some v \<Rightarrow> FloatCell (vals v idx)
           | None \<Rightarrow> FloatCell None))"

text \<open>\<^verbatim>\<open>ds.to_dataframe().reset_index()\<close>: one row per position of the grid; the
  dimensions come first, then the data variables; the index is \<open>0, 1, 2, ...\<close>.\<close>

definition to_dataframe_reset_index :: "dataset \<Rightarrow> dataframe" where
  "to_dataframe_reset_index ds =
     \<lparr>columns = coord_names ds @ var_names ds,
      rows = enumerate 0 (map (row_of ds) (all_indices (coords ds)))\<rparr>"

definition is_time_cell :: "cell \<Rightarrow> bool" where
  "is_time_cell c = (case c of TimeCell t \<Rightarrow> True | _ \<Rightarrow> False)"

definition year_cell :: "cell \<Rightarrow> cell" where
  "year_cell c = (case c of TimeCell t \<Rightarrow> Int16Cell (word_of_int (year_of t)) | _ \<Rightarrow> c)"

definition month_cell :: "cell \<Rightarrow> cell" where
  "month_cell c = (case c of TimeCell t \<Rightarrow> Int8Cell (word_of_int (int (month_of t))) | _ \<Rightarrow> c)"

text \<open>\<^verbatim>\<open>pdf[name] = ...\<close>: an existing column is replaced in its place, a new one is
  appended.\<close>

definition assign_column :: "string \<Rightarrow> ((string \<Rightarrow> cell) \<Rightarrow> cell) \<Rightarrow> dataframe \<Rightarrow> dataframe" where
  "assign_column name f pdf =
     \<lparr>columns = (if name \<in> set (columns pdf) then columns pdf else columns pdf @ [name]),
      rows = map (\<lambda>(l, r). (l, r(name := f r))) (rows pdf)\<rparr>"

text \<open>
  Lines 223--224 and 248--249:
  \<^verbatim>\<open>pdf["year"] = pdf["time"].dt.year.astype("int16")\<close> and
  \<^verbatim>\<open>pdf["month"] = pdf["time"].dt.month.astype("int8")\<close>.
\<close>

definition with_year_month :: "dataframe \<Rightarrow> py_error + dataframe" where
  "with_year_month pdf =
     (if ''time'' \<notin> set (columns pdf) then Inl KeyError
      else if \<not> list_all (\<lambda>(l, r). is_time_cell (r ''time'')) (rows pdf) then Inl AttributeError
      else Inr (assign_column ''month'' (\<lambda>r. month_cell (r ''time''))
                 (assign_column ''year'' (\<lambda>r. year_cell (r ''time'')) pdf)))"

definition drop_columns :: "string list \<Rightarrow> dataframe \<Rightarrow> py_error + dataframe" where
  "drop_columns names pdf =
     (if \<not> set names \<subseteq> set (columns pdf) then Inl KeyError
      else Inr (pdf\<lparr>columns := filter (\<lambda>c. c \<notin> set names) (columns pdf)\<rparr>))"

text \<open>\<^verbatim>\<open>pdf[names]\<close> with a list of labels.\<close>

definition select_columns :: "string list \<Rightarrow> dataframe \<Rightarrow> py_error + dataframe" where
  "select_columns names pdf =
     (if \<not> set names \<subseteq> set (columns pdf) then Inl KeyError
      else Inr (pdf\<lparr>columns := names\<rparr>))"

text \<open>The cells of the rows, in the order of the columns.\<close>

definition row_values :: "dataframe \<Rightarrow> cell list list" where
  "row_values pdf = map (\<lambda>(l, r). map r (columns pdf)) (rows pdf)"

definition row_index :: "dataframe \<Rightarrow> nat list" where
  "row_index pdf = map fst (rows pdf)"

section \<open>Global aggregator: \<^verbatim>\<open>compute_global_monthly_stats\<close>\<close>

definition median_skipna :: "real option list \<Rightarrow> real option" where
  "median_skipna vs =
     (let xs = sort (present vs); n = length xs in
      if n = 0 then None
      else if odd n then Some (xs ! (n div 2))
      else Some ((xs ! (n div 2 - 1) + xs ! (n div 2)) / 2))"

definition min_skipna :: "real option list \<Rightarrow> real option" where
  "min_skipna vs = (if present vs = [] then None else Some (Min (set (present vs))))"

definition max_skipna :: "real option list \<Rightarrow> real option" where
  "max_skipna vs = (if present vs = [] then None else Some (Max (set (present vs))))"

text \<open>A reduction over \<^verbatim>\<open>dim=['latitude', 'longitude']\<close>: both dimensions leave the
  array; a dimension that the array does not have is a ValueError.\<close>

definition reduce_latlon :: "(real option list \<Rightarrow> real option) \<Rightarrow> data_array \<Rightarrow> py_error + data_array" where
  "reduce_latlon agg da =
     (case map_of (da_coords da) ''latitude'' of
        None \<Rightarrow> Inl ValueError
      | Some la \<Rightarrow>
          (case map_of (da_coords da) ''longitude'' of
             None \<Rightarrow> Inl ValueError
           | Some lo \<Rightarrow>
               Inr \<lparr>da_coords = filter (\<lambda>(n, a). n \<noteq> ''latitude'' \<and> n \<noteq> ''longitude'') (da_coords da),
                    da_vals = (\<lambda>idx. agg (concat (map (\<lambda>i. map (\<lambda>j. da_vals da (idx(''latitude'' := i, ''longitude'' := j)))
                                                                  [0..<axis_size lo])
                                                     [0..<axis_size la]))),
                    da_attrs = []\<rparr>))"

definition as_variable :: "data_array \<Rightarrow> variable" where
  "as_variable da = \<lparr>vals = da_vals da, attrs = da_attrs da\<rparr>"

text \<open>Lines 209--217: the four statistics of one requested variable, as a dataset.\<close>

definition stats_of :: "dataset \<Rightarrow> string \<Rightarrow> py_error + dataset" where
  "stats_of ds col =
     (case getitem ds col of
        Inl e \<Rightarrow> Inl e
      | Inr var \<Rightarrow>
          (case reduce_latlon mean_skipna var of
             Inl e \<Rightarrow> Inl e
           | Inr s_mean \<Rightarrow>
               (case reduce_latlon median_skipna var of
                  Inl e \<Rightarrow> Inl e
                | Inr s_median \<Rightarrow>
                    (case reduce_latlon min_skipna var of
                       Inl e \<Rightarrow> Inl e
                     | Inr s_min \<Rightarrow>
                         (case reduce_latlon max_skipna var of
                            Inl e \<Rightarrow> Inl e
                          | Inr s_max \<Rightarrow>
                              Inr \<lparr>coords = da_coords s_mean,
                                   data_vars =
                                     [(col @ ''_mean'', as_variable s_mean),
                                      (col @ ''_median'', as_variable s_median),
                                      (col @ ''_min'', as_variable s_min),
                                      (col @ ''_max'', as_variable s_max)]\<rparr>)))))"

text \<open>Lines 207--217: the loop over the requested variables.\<close>

fun stats_loop :: "dataset \<Rightarrow> string list \<Rightarrow> py_error + dataset list" where
  "stats_loop ds [] = Inr []"
| "stats_loop ds (col # rest) =
     (case stats_of ds col of
        Inl e \<Rightarrow> Inl e
      | Inr s \<Rightarrow>
          (case stats_loop ds rest of
             Inl e \<Rightarrow> Inl e
           | Inr ss \<Rightarrow> Inr (s # ss)))"

text \<open>\<^verbatim>\<open>xr.merge\<close> of datasets on the same grid: the variables in the order of their
  first appearance (the datasets merged here share their coordinates, and a name that
  comes twice carries the same array).\<close>

definition merge_two :: "dataset \<Rightarrow> dataset \<Rightarrow> dataset" where
  "merge_two a b =
     \<lparr>coords = coords a @ filter (\<lambda>c. fst c \<notin> set (coord_names a)) (coords b),
      data_vars = data_vars a @ filter (\<lambda>v. fst v \<notin> set (var_names a)) (data_vars b)\<rparr>"

definition xr_merge :: "dataset list \<Rightarrow> dataset" where
  "xr_merge dss = foldl merge_two \<lparr>coords = [], data_vars = []\<rparr> dss"

text \<open>Lines 200--230.\<close>

definition compute_global_monthly_stats :: "dataset \<Rightarrow> string list \<Rightarrow> py_error + dataframe" where
  "compute_global_monthly_stats ds cols =
     (case stats_loop ds cols of
        Inl e \<Rightarrow> Inl e
      | Inr stats_list \<Rightarrow>
          (case with_year_month (to_dataframe_reset_index (xr_merge stats_list)) of
             Inl e \<Rightarrow> Inl e
           | Inr pdf \<Rightarrow>
               (case drop_columns [''time''] pdf of
                  Inl e \<Rightarrow> Inl e
                | Inr pdf' \<Rightarrow>
                    select_columns
                      ([''year'', ''month''] @ filter (\<lambda>c. c \<notin> set [''year'', ''month'']) (columns pdf'))
                      pdf')))"

definition stat_names :: "string \<Rightarrow> string list" where
  "stat_names col = [col @ ''_mean'', col @ ''_median'', col @ ''_min'', col @ ''_max'']"

section \<open>Spatial windower: \<^verbatim>\<open>compute_spatial_anomalies_recent\<close>\<close>

definition sel_time_ds :: "timestamp \<Rightarrow> timestamp \<Rightarrow> dataset \<Rightarrow> py_error + dataset" where
  "sel_time_ds lo hi ds =
     (case time_positions (coords ds) lo hi of
        Inl e \<Rightarrow> Inl e
      | Inr ps \<Rightarrow>
          Inr (ds\<lparr>coords := isel_coords ''time'' ps (coords ds),
                  data_vars := map (\<lambda>(n, v). (n, v\<lparr>vals := isel_vals ''time'' ps (vals v)\<rparr>))
                                 (data_vars ds)\<rparr>))"

text \<open>\<^verbatim>\<open>ds[names]\<close> with a list of names: the named variables, each once, with the
  coordinates of their dimensions (none when no variable is named).\<close>

definition first_occurrences :: "string list \<Rightarrow> string list" where
  "first_occurrences names = rev (remdups (rev names))"

definition select_vars :: "string list \<Rightarrow> dataset \<Rightarrow> py_error + dataset" where
  "select_vars names ds =
     (if \<not> set names \<subseteq> set (var_names ds) then Inl KeyError
      else Inr \<lparr>coords = (if names = [] then [] else coords ds),
                data_vars = List.map_filter (\<lambda>n. map_option (\<lambda>v. (n, v)) (map_of (data_vars ds) n))
                              (first_occurrences names)\<rparr>)"

text \<open>Lines 243--252: the table of one year.\<close>

definition year_table :: "dataset \<Rightarrow> string list \<Rightarrow> int \<Rightarrow> py_error + dataframe" where
  "year_table ds cols year =
     (case sel_time_ds (jan_first year) (dec_last year) ds of
        Inl e \<Rightarrow> Inl e
      | Inr ds_year \<Rightarrow>
          (case select_vars cols ds_year of
             Inl e \<Rightarrow> Inl e
           | Inr ds_computed \<Rightarrow>
               (case with_year_month (to_dataframe_reset_index ds_computed) of
                  Inl e \<Rightarrow> Inl e
                | Inr pdf \<Rightarrow>
                    select_columns ([''latitude'', ''longitude'', ''year'', ''month''] @ cols) pdf)))"

text \<open>Lines 241--252: the loop over \<^verbatim>\<open>range(start_year, end_year + 1)\<close>.\<close>

fun year_loop :: "dataset \<Rightarrow> string list \<Rightarrow> int list \<Rightarrow> py_error + dataframe list" where
  "year_loop ds cols [] = Inr []"
| "year_loop ds cols (year # rest) =
     (case year_table ds cols year of
        Inl e \<Rightarrow> Inl e
      | Inr pdf \<Rightarrow>
          (case year_loop ds cols rest of
             Inl e \<Rightarrow> Inl e
           | Inr dfs \<Rightarrow> Inr (pdf # dfs)))"

text \<open>\<^verbatim>\<open>pd.concat(dfs, ignore_index=True)\<close> of tables with the same columns; pandas
  refuses an empty list (ValueError: No objects to concatenate).\<close>

definition pd_concat :: "dataframe list \<Rightarrow> py_error + dataframe" where
  "pd_concat dfs =
     (case dfs of
        [] \<Rightarrow> Inl ValueError
      | df # _ \<Rightarrow>
          Inr \<lparr>columns = columns df,
               rows = enumerate 0 (concat (map (\<lambda>d. map snd (rows d)) dfs))\<rparr>)"

text \<open>The sort key of a cell: missing values come last.\<close>

definition date_number :: "timestamp \<Rightarrow> int" where
  "date_number t = year_of t * 10000 + int (month_of t) * 100 + int (day_of t)"

fun cell_key :: "cell \<Rightarrow> nat \<times> real" where
  "cell_key (TimeCell t) = (0, real_of_int (date_number t))"
| "cell_key (NumCell x) = (0, x)"
| "cell_key (IntCell i) = (0, real_of_int i)"
| "cell_key (Int16Cell w) = (0, real_of_int (sint w))"
| "cell_key (Int8Cell w) = (0, real_of_int (sint w))"
| "cell_key (FloatCell None) = (1, 0)"
| "cell_key (FloatCell (Some x)) = (0, x)"

definition row_key :: "string list \<Rightarrow> (nat \<times> (string \<Rightarrow> cell)) \<Rightarrow> (nat \<times> real) list" where
  "row_key keys lr = map (\<lambda>k. cell_key (snd lr k)) keys"

text \<open>\<^verbatim>\<open>sort_values(keys)\<close>: a stable lexicographic sort; a key must be the label of
  exactly one column.\<close>

definition sort_values :: "string list \<Rightarrow> dataframe \<Rightarrow> py_error + dataframe" where
  "sort_values keys pdf =
     (if \<not> set keys \<subseteq> set (columns pdf) then Inl KeyError
      else if \<not> list_all (\<lambda>k. length (filter (\<lambda>c. c = k) (columns pdf)) = 1) keys then Inl ValueError
      else Inr (pdf\<lparr>rows := sort_key (row_key keys) (rows pdf)\<rparr>))"

definition reset_index_drop :: "dataframe \<Rightarrow> dataframe" where
  "reset_index_drop pdf = pdf\<lparr>rows := enumerate 0 (map snd (rows pdf))\<rparr>"

text \<open>Lines 233--260.\<close>

definition compute_spatial_anomalies_recent ::
  "dataset \<Rightarrow> string list \<Rightarrow> int \<Rightarrow> int \<Rightarrow> py_error + dataframe" where
  "compute_spatial_anomalies_recent ds cols start_year end_year =
     (case year_loop ds cols [start_year..end_year] of
        Inl e \<Rightarrow> Inl e
      | Inr dfs \<Rightarrow>
          (case pd_concat dfs of
             Inl e \<Rightarrow> Inl e
           | Inr result \<Rightarrow>
               (case sort_values [''latitude'', ''longitude'', ''year'', ''month''] result of
                  Inl e \<Rightarrow> Inl e
                | Inr sorted_result \<Rightarrow> Inr (reset_index_drop sorted_result))))"

section \<open>Files: the download stages and the tabular writer\<close>

text \<open>
  The file system is an explicit store: a path is the list of its components, a file has
  its content and the time of its last write. What the remote services answer and the
  time of a write are arguments of the operations.
\<close>

type_synonym path = "string list"

datatype payload = Blob string | ZipArchive "(string \<times> payload) list" | Table dataframe

record file_entry =
  content :: payload
  mtime :: nat

record filesystem =
  files :: "path \<Rightarrow> file_entry option"
  dirs :: "path set"

definition path_exists :: "filesystem \<Rightarrow> path \<Rightarrow> bool" where
  "path_exists fs p = (files fs p \<noteq> None \<or> p \<in> dirs fs)"

definition write_file :: "path \<Rightarrow> payload \<Rightarrow> nat \<Rightarrow> filesystem \<Rightarrow> filesystem" where
  "write_file p data now fs = fs\<lparr>files := (files fs)(p \<mapsto> \<lparr>content = data, mtime = now\<rparr>)\<rparr>"

definition parent :: "path \<Rightarrow> path" where
  "parent p = butlast p"

definition name_of :: "path \<Rightarrow> string" where
  "name_of p = (if p = [] then [] else last p)"

definition endswith :: "string \<Rightarrow> string \<Rightarrow> bool" where
  "endswith s suffix = (length suffix \<le> length s \<and> drop (length s - length suffix) s = suffix)"

text \<open>\<^verbatim>\<open>str.rfind('.')\<close> and \<^verbatim>\<open>Path.stem\<close>: the name without its last suffix; a dot
  that starts or ends the name does not start a suffix.\<close>

definition rfind_dot :: "string \<Rightarrow> nat option" where
  "rfind_dot s = map_option (\<lambda>j. length s - 1 - j) (index_of (CHR ''.'') (rev s))"

definition stem :: "string \<Rightarrow> string" where
  "stem name =
     (case rfind_dot name of
        None \<Rightarrow> name
      | Some i \<Rightarrow> if 0 < i \<and> i < length name - 1 then take i name else name)"

text \<open>\<^verbatim>\<open>str(n)\<close> for an integer.\<close>

function str_nat :: "nat \<Rightarrow> string" where
  "str_nat n = (if n < 10 then [char_of (48 + n)] else str_nat (n div 10) @ [char_of (48 + n mod 10)])"
  by pat_completeness auto
termination
  by (relation "measure (\<lambda>n. n)") auto

definition str_int :: "int \<Rightarrow> string" where
  "str_int i = (if i < 0 then CHR ''-'' # str_nat (nat (- i)) else str_nat (nat i))"

text \<open>Lines 10--50. Opening a file that is not a ZIP archive raises \<^verbatim>\<open>BadZipFile\<close>, which
  the function catches; the member of a name is the last entry of that name.\<close>

definition extract_netcdf_from_zip :: "path \<Rightarrow> nat \<Rightarrow> filesystem \<Rightarrow> py_error + (path \<times> filesystem)" where
  "extract_netcdf_from_zip zip_path now fs =
     (case files fs zip_path of
        None \<Rightarrow> Inl FileNotFoundError
      | Some f \<Rightarrow>
          (case content f of
             ZipArchive members \<Rightarrow>
               (let nc_files = filter (\<lambda>n. endswith n ''.nc'') (map fst members) in
                case nc_files of
                  [] \<Rightarrow> Inl ValueError
                | first_nc # _ \<Rightarrow>
                    (let extracted_path = parent zip_path @ [stem (name_of zip_path) @ ''_extracted.nc''] in
                     if path_exists fs extracted_path then Inr (extracted_path, fs)
                     else
                       (case map_of (rev members) first_nc of
                          None \<Rightarrow> Inl KeyError
                        | Some data \<Rightarrow> Inr (extracted_path, write_file extracted_path data now fs))))
           | Blob b \<Rightarrow> Inr (zip_path, fs)
           | Table t \<Rightarrow> Inr (zip_path, fs)))"

text \<open>Lines 53--106. \<open>retrieve\<close> is the answer of the data store to the request (dataset,
  product type, variable, years).\<close>

definition download_monthly_variable ::
  "(string \<Rightarrow> string \<Rightarrow> string \<Rightarrow> string list \<Rightarrow> py_error + payload) \<Rightarrow> nat \<Rightarrow> path \<Rightarrow> int \<Rightarrow> int
     \<Rightarrow> string \<Rightarrow> string \<Rightarrow> string \<Rightarrow> string \<Rightarrow> filesystem \<Rightarrow> py_error + (path \<times> filesystem)" where
  "download_monthly_variable retrieve now output_dir start_year end_year dataset_name var file_suffix
       product_type fs =
     (let out_file = output_dir @
            [''era5_'' @ file_suffix @ ''_'' @ str_int start_year @ ''_'' @ str_int end_year @ ''_monthly.nc''];
          extracted_file = output_dir @
            [''era5_'' @ file_suffix @ ''_'' @ str_int start_year @ ''_'' @ str_int end_year
               @ ''_monthly_extracted.nc'']
      in
      if path_exists fs extracted_file then Inr (extracted_file, fs)
      else if path_exists fs out_file then extract_netcdf_from_zip out_file now fs
      else
        (case retrieve dataset_name product_type var (map str_int [start_year..end_year]) of
           Inl e \<Rightarrow> Inl e
         | Inr data \<Rightarrow> extract_netcdf_from_zip out_file now (write_file out_file data now fs)))"

text \<open>Lines 108--121. \<open>get\<close> is the answer to the HTTP request, an error when the status
  is not a success.\<close>

definition download_world_geojson ::
  "(string \<Rightarrow> py_error + string) \<Rightarrow> nat \<Rightarrow> path \<Rightarrow> filesystem \<Rightarrow> py_error + (path \<times> filesystem)" where
  "download_world_geojson get now out_dir fs =
     (let output = out_dir @ [''world_countries.geojson''] in
      if path_exists fs output then Inr (output, fs)
      else
        (case get ''https://public.opendatasoft.com/explore/dataset/country_shapes/download/?format=geojson'' of
           Inl e \<Rightarrow> Inl e
         | Inr body \<Rightarrow> Inr (output, write_file output (Blob body) now fs)))"

text \<open>\<^verbatim>\<open>mkdir(parents=True, exist_ok=True)\<close>: the directory and its ancestors; a file in
  the way is an error.\<close>

definition ancestors :: "path \<Rightarrow> path list" where
  "ancestors d = map (\<lambda>n. take n d) [1..<Suc (length d)]"

definition mkdir_parents :: "path \<Rightarrow> filesystem \<Rightarrow> py_error + filesystem" where
  "mkdir_parents d fs =
     (if list_ex (\<lambda>p. files fs p \<noteq> None) (ancestors d) then Inl FileExistsError
      else Inr (fs\<lparr>dirs := dirs fs \<union> set (ancestors d)\<rparr>))"

text \<open>Lines 263--269: the table is written whether or not the target exists.\<close>

definition save_parquet_pandas :: "dataframe \<Rightarrow> path \<Rightarrow> nat \<Rightarrow> filesystem \<Rightarrow> py_error + filesystem" where
  "save_parquet_pandas df p now fs =
     (case mkdir_parents (parent p) fs of
        Inl e \<Rightarrow> Inl e
      | Inr fs1 \<Rightarrow>
          if p \<in> dirs fs1 then Inl FileExistsError
          else Inr (write_file p (Table df) now fs1))"

section \<open>Reference predicates and sample inputs\<close>

text \<open>The unit test of the specification: the unit attribute begins with \<^verbatim>\<open>k\<close> or \<^verbatim>\<open>K\<close>.\<close>

definition begins_with_k :: "variable \<Rightarrow> bool" where
  "begins_with_k v =
     (case map_of (attrs v) ''units'' of
        Some (c # rest) \<Rightarrow> c = CHR ''k'' \<or> c = CHR ''K''
      | _ \<Rightarrow> False)"

text \<open>A field as a file gives it: Kelvin values on a 2 x 2 grid with longitudes in
  \<open>[0, 360)\<close>, two months of two years, and a second variable that is not in Kelvin.\<close>

definition sample_raw :: dataset where
  "sample_raw =
     \<lparr>coords = [(''valid_time'', TimeAxis [(1991, 1, 1), (1991, 2, 1), (1992, 1, 1), (1992, 2, 1)]),
                (''latitude'', NumAxis [10, 20]),
                (''longitude'', NumAxis [170, 190])],
      data_vars = [(''t2m'', \<lparr>vals = (\<lambda>idx. if idx ''valid_time'' < 2 then Some 280 else Some 290),
                             attrs = [(''long_name'', ''2 metre temperature''), (''units'', ''K'')]\<rparr>),
                   (''mask'', \<lparr>vals = (\<lambda>idx. Some 1), attrs = [(''units'', ''C'')]\<rparr>)]\<rparr>"

text \<open>Datasets that carry the label \<^verbatim>\<open>time\<close> and one of its aliases.\<close>

definition two_time_labels :: dataset where
  "two_time_labels =
     \<lparr>coords = [(''time'', TimeAxis [(2024, 1, 1)]), (''valid_time'', TimeAxis [(2024, 1, 1)])],
      data_vars = []\<rparr>"

definition time_and_date :: dataset where
  "time_and_date =
     \<lparr>coords = [(''time'', TimeAxis [(2024, 1, 1)]), (''date'', TimeAxis [(2024, 1, 1)])],
      data_vars = []\<rparr>"

text \<open>A normalized field: Celsius values on a 2 x 2 grid, two months of two years, with one
  cell that has no data.\<close>

definition sample_grid :: dataset where
  "sample_grid =
     \<lparr>coords = [(''time'', TimeAxis [(1991, 1, 1), (1991, 2, 1), (1992, 1, 1), (1992, 2, 1)]),
                (''latitude'', NumAxis [10, 20]),
                (''longitude'', NumAxis [- 170, 170])],
      data_vars = [(''t2m'', \<lparr>vals = (\<lambda>idx. if idx ''latitude'' = 1 \<and> idx ''longitude'' = 1 then None
                                          else if idx ''time'' < 2 then Some 7 else Some 17),
                             attrs = [(''units'', ''C'')]\<rparr>),
                   (''skt'', \<lparr>vals = (\<lambda>idx. Some 1), attrs = []\<rparr>)]\<rparr>"


text \<open>The anomaly values that the source computes, written out: the group of the time
  step is looked up among the groups of the baseline slice.\<close>

definition anomaly_vals :: "timestamp list \<Rightarrow> nat list \<Rightarrow> (index \<Rightarrow> real option) \<Rightarrow> index \<Rightarrow> real option" where
  "anomaly_vals ts ps f idx =
     (if idx ''time'' < length ts then
        (case index_of (int (month_of (ts ! idx ''time'')))
                (map int (group_labels (map (\<lambda>k. ts ! k) ps))) of
           None \<Rightarrow> None
         | Some q \<Rightarrow>
             minus_opt (f idx)
               (mean_skipna
                  (map (\<lambda>k. isel_vals ''time'' ps f (idx(''month'' := q, ''time'' := k)))
                       (group_members (map (\<lambda>k. ts ! k) ps) q))))
      else None)"

text \<open>The timestamps pandas can hold (nanosecond resolution): their years fit \<^verbatim>\<open>int16\<close> and
  their months \<^verbatim>\<open>int8\<close>.\<close>

definition valid_timestamp :: "timestamp \<Rightarrow> bool" where
  "valid_timestamp t =
     (1677 \<le> year_of t \<and> year_of t \<le> 2262 \<and> 1 \<le> month_of t \<and> month_of t \<le> 12
      \<and> 1 \<le> day_of t \<and> day_of t \<le> 31)"

text \<open>The integer that an integer cell holds.\<close>

definition cell_int :: "cell \<Rightarrow> int" where
  "cell_int c =
     (case c of
        IntCell i \<Rightarrow> i
      | Int16Cell w \<Rightarrow> sint w
      | Int8Cell w \<Rightarrow> sint w
      | _ \<Rightarrow> 0)"

chapter \<open>Properties\<close>

section \<open>Unit conversion\<close>

lemma lower_char_k: "lower_char c = CHR ''k'' \<longleftrightarrow> c = CHR ''k'' \<or> c = CHR ''K''"
proof -
  have a: "(of_char c :: nat) < 256" by simp
  have k: "of_char (CHR ''k'') = (107::nat)" "of_char (CHR ''K'') = (75::nat)" by simp_all
  show ?thesis
  proof (cases "65 \<le> (of_char c :: nat) \<and> (of_char c :: nat) \<le> 90")
    case True
    then have "lower_char c = char_of (of_char c + 32 :: nat)" by (simp add: lower_char_def)
    moreover have "(char_of (of_char c + 32 :: nat) = CHR ''k'') = ((of_char c :: nat) = 75)"
    proof
      assume "char_of (of_char c + 32 :: nat) = CHR ''k''"
      then have "of_char (char_of (of_char c + 32 :: nat) :: char) = (107::nat)" by simp
      then have "(of_char c + 32 :: nat) mod 256 = 107" by (simp only: of_char_of)
      with True show "(of_char c :: nat) = 75" by simp
    next
      assume "(of_char c :: nat) = 75"
      moreover have "char_of (of_char (CHR ''k'') :: nat) = CHR ''k''" by (rule char_of_char)
      ultimately show "char_of (of_char c + 32 :: nat) = CHR ''k''" by (simp add: k)
    qed
    moreover have "((of_char c :: nat) = 75) = (c = CHR ''K'')"
      by (metis k(2) of_char_eq_iff)
    moreover have "c \<noteq> CHR ''k''" using True by auto
    ultimately show ?thesis by simp
  next
    case False
    then have "lower_char c = c" unfolding lower_char_def by (simp only: if_False)
    moreover have "c \<noteq> CHR ''K''" using False by auto
    ultimately show ?thesis by simp
  qed
qed

lemma is_kelvin_iff: "is_kelvin v = begins_with_k v"
  by (auto simp: is_kelvin_def begins_with_k_def startswith_def lower_def lower_char_k
      split: option.splits list.splits)

lemma not_kelvin_to_celsius: "\<not> is_kelvin (to_celsius v)"
  by (simp add: is_kelvin_iff begins_with_k_def to_celsius_def)

lemma map_absent_key:
  "k \<notin> fst ` set al \<Longrightarrow> map (\<lambda>(n, x). (n, if n = k then v else x)) al = al"
  by (induction al) auto

lemma update_as_map:
  "k \<in> fst ` set al \<Longrightarrow> distinct (map fst al) \<Longrightarrow>
   AList.update k v al = map (\<lambda>(n, x). (n, if n = k then v else x)) al"
  by (induction al) (auto simp: map_absent_key)

lemma convert_loop_coords: "coords (convert_loop names ds) = coords ds"
  by (induction names ds rule: convert_loop.induct) (auto split: option.splits)

lemma convert_loop_data_vars:
  "distinct names \<Longrightarrow> distinct (var_names ds) \<Longrightarrow>
   data_vars (convert_loop names ds) =
     map (\<lambda>(n, v). (n, if n \<in> set names \<and> is_kelvin v then to_celsius v else v)) (data_vars ds)"
proof (induction names ds rule: convert_loop.induct)
  case (1 ds)
  then show ?case by (simp add: case_prod_unfold)
next
  case (2 var rest ds)
  show ?case
  proof (cases "map_of (data_vars ds) var")
    case None
    then have nin: "var \<notin> fst ` set (data_vars ds)" by (simp add: map_of_eq_None_iff)
    have "data_vars (convert_loop (var # rest) ds) = data_vars (convert_loop rest ds)"
      using None by simp
    also have "\<dots> = map (\<lambda>(n, v). (n, if n \<in> set rest \<and> is_kelvin v then to_celsius v else v)) (data_vars ds)"
      using "2.IH" "2.prems" None by simp
    also have "\<dots> = map (\<lambda>(n, v). (n, if n \<in> set (var # rest) \<and> is_kelvin v then to_celsius v else v)) (data_vars ds)"
      using nin by (auto simp: rev_image_eqI)
    finally show ?thesis .
  next
    case (Some v)
    show ?thesis
    proof (cases "is_kelvin v")
      case False
      have "data_vars (convert_loop (var # rest) ds) = data_vars (convert_loop rest ds)"
        using Some False by simp
      also have "\<dots> = map (\<lambda>(n, v). (n, if n \<in> set rest \<and> is_kelvin v then to_celsius v else v)) (data_vars ds)"
        using "2.IH" "2.prems" Some False by simp
      also have "\<dots> = map (\<lambda>(n, v). (n, if n \<in> set (var # rest) \<and> is_kelvin v then to_celsius v else v)) (data_vars ds)"
      proof (rule map_cong[OF refl])
        fix x assume x: "x \<in> set (data_vars ds)"
        obtain n w where nw: "x = (n, w)" by (cases x)
        have "n = var \<Longrightarrow> w = v"
          using x nw Some "2.prems"(2) by (auto simp: var_names_def)
        with False show "(case x of (n, v) \<Rightarrow> (n, if n \<in> set rest \<and> is_kelvin v then to_celsius v else v))
          = (case x of (n, v) \<Rightarrow> (n, if n \<in> set (var # rest) \<and> is_kelvin v then to_celsius v else v))"
          using nw by auto
      qed
      finally show ?thesis .
    next
      case True
      let ?ds' = "ds\<lparr>data_vars := AList.update var (to_celsius v) (data_vars ds)\<rparr>"
      have vin: "var \<in> fst ` set (data_vars ds)"
        using Some by (metis map_of_eq_None_iff option.distinct(1))
      have upd: "data_vars ?ds' = map (\<lambda>(n, x). (n, if n = var then to_celsius v else x)) (data_vars ds)"
        using update_as_map[OF vin] "2.prems"(2) by (simp add: var_names_def)
      have dn: "distinct (var_names ?ds')"
        using "2.prems"(2) by (simp add: var_names_def upd case_prod_unfold comp_def)
      have "data_vars (convert_loop (var # rest) ds) = data_vars (convert_loop rest ?ds')"
        using Some True by simp
      also have "\<dots> = map (\<lambda>(n, v). (n, if n \<in> set rest \<and> is_kelvin v then to_celsius v else v)) (data_vars ?ds')"
        using "2.IH" "2.prems"(1) Some True dn by simp
      also have "\<dots> = map (\<lambda>(n, v). (n, if n \<in> set (var # rest) \<and> is_kelvin v then to_celsius v else v)) (data_vars ds)"
        unfolding upd map_map
      proof (rule map_cong[OF refl])
        fix x assume x: "x \<in> set (data_vars ds)"
        obtain n w where nw: "x = (n, w)" by (cases x)
        have "n = var \<Longrightarrow> w = v"
          using x nw Some "2.prems"(2) by (auto simp: var_names_def)
        then show "((\<lambda>(n, v). (n, if n \<in> set rest \<and> is_kelvin v then to_celsius v else v)) \<circ>
           (\<lambda>(n, x). (n, if n = var then to_celsius v else x))) x
          = (case x of (n, v) \<Rightarrow> (n, if n \<in> set (var # rest) \<and> is_kelvin v then to_celsius v else v))"
          using nw True "2.prems"(1) by (auto simp: not_kelvin_to_celsius)
      qed
      finally show ?thesis .
    qed
  qed
qed

lemma kelvin_to_celsius_data_vars:
  assumes "distinct (var_names ds)"
  shows "data_vars (kelvin_to_celsius ds) =
     map (\<lambda>(n, v). (n, if is_kelvin v then to_celsius v else v)) (data_vars ds)"
proof -
  have "data_vars (kelvin_to_celsius ds) =
     map (\<lambda>(n, v). (n, if n \<in> set (var_names ds) \<and> is_kelvin v then to_celsius v else v)) (data_vars ds)"
    unfolding kelvin_to_celsius_def using assms by (rule convert_loop_data_vars[OF assms])
  also have "\<dots> = map (\<lambda>(n, v). (n, if is_kelvin v then to_celsius v else v)) (data_vars ds)"
    by (rule map_cong[OF refl]) (auto simp: var_names_def rev_image_eqI)
  finally show ?thesis .
qed

lemma convert_loop_more: "dataset.more (convert_loop names ds) = dataset.more ds"
  by (induction names ds rule: convert_loop.induct) (auto split: option.splits)

text \<open>
  Claim C6. The conversion loop leaves the coordinates alone; it replaces a variable by its
  values minus 273.15 with the unit \<^verbatim>\<open>C\<close> exactly when the unit attribute of the variable
  begins with \<^verbatim>\<open>k\<close> or \<^verbatim>\<open>K\<close>, and leaves every other variable as it is. Converting a
  converted field changes nothing, and a field whose units are all \<^verbatim>\<open>C\<close> is returned as it
  is.
\<close>

theorem kelvin_conversion_gated_and_idempotent:
  assumes "distinct (var_names ds)"
  shows "coords (kelvin_to_celsius ds) = coords ds
    \<and> data_vars (kelvin_to_celsius ds) =
        map (\<lambda>(n, v). (n, if begins_with_k v
                           then \<lparr>vals = (\<lambda>idx. map_option (\<lambda>x. x - 273.15) (vals v idx)),
                                 attrs = [(''units'', ''C'')]\<rparr>
                           else v)) (data_vars ds)
    \<and> kelvin_to_celsius (kelvin_to_celsius ds) = kelvin_to_celsius ds
    \<and> ((\<forall>(n, v) \<in> set (data_vars ds). map_of (attrs v) ''units'' = Some ''C'')
          \<longrightarrow> kelvin_to_celsius ds = ds)"
proof -
  let ?f = "\<lambda>(n, v). (n, if is_kelvin v then to_celsius v else v)"
  have c: "coords (kelvin_to_celsius ds) = coords ds"
    by (simp add: kelvin_to_celsius_def convert_loop_coords)
  have m: "dataset.more (kelvin_to_celsius ds) = dataset.more ds"
    by (simp add: kelvin_to_celsius_def convert_loop_more)
  have d: "data_vars (kelvin_to_celsius ds) = map ?f (data_vars ds)"
    by (rule kelvin_to_celsius_data_vars[OF assms])
  have d': "data_vars (kelvin_to_celsius ds) =
        map (\<lambda>(n, v). (n, if begins_with_k v
                           then \<lparr>vals = (\<lambda>idx. map_option (\<lambda>x. x - 273.15) (vals v idx)),
                                 attrs = [(''units'', ''C'')]\<rparr>
                           else v)) (data_vars ds)"
    unfolding d is_kelvin_iff to_celsius_def by (rule refl)
  have names: "var_names (kelvin_to_celsius ds) = var_names ds"
    by (simp add: var_names_def d case_prod_unfold comp_def)
  have ff: "?f (?f x) = ?f x" for x
    by (cases x) (simp add: not_kelvin_to_celsius)
  have "data_vars (kelvin_to_celsius (kelvin_to_celsius ds)) = map ?f (map ?f (data_vars ds))"
    using kelvin_to_celsius_data_vars[of "kelvin_to_celsius ds"] assms names d by simp
  also have "\<dots> = map ?f (data_vars ds)"
    unfolding map_map by (rule map_cong[OF refl]) (simp only: comp_def ff)
  finally have "data_vars (kelvin_to_celsius (kelvin_to_celsius ds)) = data_vars (kelvin_to_celsius ds)"
    using d by simp
  moreover have "coords (kelvin_to_celsius (kelvin_to_celsius ds)) = coords (kelvin_to_celsius ds)"
    by (simp add: kelvin_to_celsius_def convert_loop_coords)
  moreover have "dataset.more (kelvin_to_celsius (kelvin_to_celsius ds)) = dataset.more (kelvin_to_celsius ds)"
    by (simp add: kelvin_to_celsius_def convert_loop_more)
  ultimately have i: "kelvin_to_celsius (kelvin_to_celsius ds) = kelvin_to_celsius ds"
    by (intro dataset.equality)
  have u: "kelvin_to_celsius ds = ds"
    if all: "\<forall>(n, v) \<in> set (data_vars ds). map_of (attrs v) ''units'' = Some ''C''"
  proof -
    have "map ?f (data_vars ds) = map (\<lambda>x. x) (data_vars ds)"
    proof (rule map_cong[OF refl])
      fix x assume x: "x \<in> set (data_vars ds)"
      obtain n v where nv: "x = (n, v)" by (cases x)
      have "map_of (attrs v) ''units'' = Some ''C''" using all x nv by auto
      then have "\<not> is_kelvin v" by (simp add: is_kelvin_iff begins_with_k_def)
      then show "?f x = x" using nv by simp
    qed
    then have "data_vars (kelvin_to_celsius ds) = data_vars ds" using d by simp
    then show ?thesis by (intro dataset.equality) (simp_all add: c m)
  qed
  show ?thesis using c d' i u by blast
qed

text \<open>The sample field: the Kelvin variable is converted, the other one passes through.\<close>

theorem kelvin_conversion_witness:
  "distinct (var_names sample_raw)
   \<and> map (\<lambda>(n, v). (n, attrs v, vals v (\<lambda>d. 0))) (data_vars (kelvin_to_celsius sample_raw)) =
       [(''t2m'', [(''units'', ''C'')], Some (280 - 273.15)), (''mask'', [(''units'', ''C'')], Some 1)]
   \<and> kelvin_to_celsius (kelvin_to_celsius sample_raw) = kelvin_to_celsius sample_raw"
proof -
  have h: "distinct (var_names sample_raw)"
    by (simp add: sample_raw_def var_names_def)
  show ?thesis
    using h kelvin_conversion_gated_and_idempotent[OF h]
    by (simp add: sample_raw_def begins_with_k_def)
qed

section \<open>Time label\<close>

text \<open>
  Claim C8. With both \<^verbatim>\<open>valid_time\<close> and \<^verbatim>\<open>time\<close> among the coordinates, the first branch
  of the normalizer still asks for the rename, which xarray refuses: the normalizer fails.
  The branch of \<^verbatim>\<open>date\<close> tests for \<^verbatim>\<open>time\<close> and returns the dataset as it is.
\<close>

theorem valid_time_renamed_although_time_exists:
  "standardize_time two_time_labels = Inl ValueError
   \<and> standardize_time time_and_date = Inr time_and_date"
  by (simp add: standardize_time_def rename_def coord_names_def var_names_def
      two_time_labels_def time_and_date_def)

section \<open>Longitude convention\<close>




lemma keys_update_present:
  "k \<in> fst ` set al \<Longrightarrow> map fst (AList.update k v al) = map fst al"
  by (induction al) auto

lemma argsort_perm:
  "set (argsort (NumAxis ws)) = {0..<length ws} \<and> distinct (argsort (NumAxis ws))
   \<and> length (argsort (NumAxis ws)) = length ws"
  by simp







section \<open>Climatology and anomalies\<close>



lemma map_of_month_axis:
  "''month'' \<notin> fst ` set cs \<Longrightarrow> map_of cs ''time'' = Some a \<Longrightarrow>
   map_of (map (\<lambda>(n, a). if n = ''time'' then (''month'', X) else (n, a)) cs) ''month'' = Some X"
  by (induction cs) (auto split: if_splits)


lemma monthly_anomaly_result:
  assumes dv: "data_vars ds = (nm, v) # rest"
    and tm: "map_of (coords ds) ''time'' = Some (TimeAxis ts)"
    and mo: "''month'' \<notin> set (coord_names ds)"
  shows "monthly_anomaly_from_monthly ds bs be =
     (if slice_positions (jan_first bs) (dec_last be) ts = [] then Inl ValueError
      else Inr \<lparr>coords = coords ds,
                data_vars =
                  [(''t2m_mean_c'', \<lparr>vals = vals v, attrs = attrs v\<rparr>),
                   (''t2m_anomaly_c'',
                    \<lparr>vals = anomaly_vals ts (slice_positions (jan_first bs) (dec_last be) ts) (vals v),
                     attrs = []\<rparr>)]\<rparr>)"
proof -
  let ?ps = "slice_positions (jan_first bs) (dec_last be) ts"
  let ?t2m = "\<lparr>da_coords = coords ds, da_vals = vals v, da_attrs = attrs v\<rparr>"
  let ?sel = "map (\<lambda>k. ts ! k) ?ps"
  let ?base = "\<lparr>da_coords = AList.update ''time'' (TimeAxis ?sel) (coords ds),
                da_vals = isel_vals ''time'' ?ps (vals v), da_attrs = attrs v\<rparr>"
  have g: "getitem ds nm = Inr ?t2m" by (simp add: getitem_def dv)
  have s: "sel_time (jan_first bs) (dec_last be) ?t2m = Inr ?base"
    by (simp add: sel_time_def time_positions_def isel_coords_def tm)
  have bt: "map_of (da_coords ?base) ''time'' = Some (TimeAxis ?sel)"
    by (simp add: update_conv')
  show ?thesis
  proof (cases "?ps = []")
    case True
    then have "groupby_month_mean ?base = Inl ValueError"
      by (simp add: groupby_month_mean_def update_conv')
    then show ?thesis
      using True g s by (simp add: monthly_anomaly_from_monthly_def var_names_def dv)
  next
    case False
    let ?clim = "\<lparr>da_coords =
                      map (\<lambda>(n, a). if n = ''time'' then (''month'', IntAxis (map int (group_labels ?sel)))
                                     else (n, a)) (da_coords ?base),
                    da_vals = (\<lambda>idx. mean_skipna
                                (map (\<lambda>k. da_vals ?base (idx(''time'' := k)))
                                     (group_members ?sel (idx ''month'')))),
                    da_attrs = []\<rparr>"
    have c: "groupby_month_mean ?base = Inr ?clim"
      using False by (simp add: groupby_month_mean_def update_conv')
    have keys: "fst ` set (AList.update ''time'' (TimeAxis ?sel) (coords ds)) = fst ` set (coords ds)"
      using tm keys_update_present[of "''time''" "coords ds" "TimeAxis ?sel"]
      by (metis map_of_eq_None_iff option.distinct(1) set_map)
    have cm: "map_of (map (\<lambda>(n, a). if n = ''time'' then (''month'', IntAxis (map int (group_labels ?sel)))
                                     else (n, a)) (AList.update ''time'' (TimeAxis ?sel) (coords ds))) ''month''
          = Some (IntAxis (map int (group_labels ?sel)))"
    proof (rule map_of_month_axis)
      show "''month'' \<notin> fst ` set (AList.update ''time'' (TimeAxis ?sel) (coords ds))"
        using mo unfolding keys by (simp add: coord_names_def)
      show "map_of (AList.update ''time'' (TimeAxis ?sel) (coords ds)) ''time'' = Some (TimeAxis ?sel)"
        by (simp add: update_conv')
    qed
    have ne: "ts \<noteq> []" using False by (auto simp: slice_positions_def)
    have a: "groupby_month_minus ?t2m ?clim =
       Inr \<lparr>da_coords = coords ds, da_vals = anomaly_vals ts ?ps (vals v), da_attrs = []\<rparr>"
      using ne by (simp add: groupby_month_minus_def tm cm anomaly_vals_def[abs_def] cong: if_cong option.case_cong)
    show ?thesis
      using False g s c a by (simp add: monthly_anomaly_from_monthly_def var_names_def dv)
  qed
qed

lemma filter_positions_map:
  "map g (filter (\<lambda>k. P (ps ! k)) [0..<length ps]) = map (\<lambda>k. g k) (filter (\<lambda>k. P (ps ! k)) [0..<length ps])"
  by simp














text \<open>
  Claim C10. The result is the same when the dataset holds its first variable alone,
  under any name; the result, when there is one, has exactly the variables
  \<^verbatim>\<open>t2m_mean_c\<close> and \<^verbatim>\<open>t2m_anomaly_c\<close>, in this order.
\<close>

theorem anomaly_reads_first_variable_only:
  assumes "data_vars ds = (nm, v) # rest"
  shows "monthly_anomaly_from_monthly ds bs be
           = monthly_anomaly_from_monthly (ds\<lparr>data_vars := [(nm', v)]\<rparr>) bs be
    \<and> (\<forall>out. monthly_anomaly_from_monthly ds bs be = Inr out
          \<longrightarrow> var_names out = [''t2m_mean_c'', ''t2m_anomaly_c''])"
proof
  show "monthly_anomaly_from_monthly ds bs be
           = monthly_anomaly_from_monthly (ds\<lparr>data_vars := [(nm', v)]\<rparr>) bs be"
    using assms by (simp add: monthly_anomaly_from_monthly_def var_names_def getitem_def)
  show "\<forall>out. monthly_anomaly_from_monthly ds bs be = Inr out
          \<longrightarrow> var_names out = [''t2m_mean_c'', ''t2m_anomaly_c'']"
    by (auto simp: monthly_anomaly_from_monthly_def var_names_def split: list.splits sum.splits)
qed

text \<open>
  The sample field has two variables; the second one and the name of the first do not
  matter.
\<close>

theorem anomaly_reads_first_variable_only_witness:
  "data_vars sample_grid = (''t2m'', snd (hd (data_vars sample_grid))) # tl (data_vars sample_grid)
   \<and> length (data_vars sample_grid) = 2
   \<and> (\<exists>out. monthly_anomaly_from_monthly sample_grid 1991 1991 = Inr out
        \<and> monthly_anomaly_from_monthly
            (sample_grid\<lparr>data_vars := [(''temperature'', snd (hd (data_vars sample_grid)))]\<rparr>) 1991 1991 = Inr out
        \<and> var_names out = [''t2m_mean_c'', ''t2m_anomaly_c''])"
proof -
  let ?ts = "[(1991, 1, 1), (1991, 2, 1), (1992, 1, 1), (1992, 2, 1)] :: timestamp list"
  have h: "data_vars sample_grid = (''t2m'', snd (hd (data_vars sample_grid))) # tl (data_vars sample_grid)"
    by (simp add: sample_grid_def)
  have l: "length (data_vars sample_grid) = 2" by (simp add: sample_grid_def)
  have g2: "map_of (coords sample_grid) ''time'' = Some (TimeAxis ?ts)"
    by (simp add: sample_grid_def)
  have g3: "''month'' \<notin> set (coord_names sample_grid)"
    by (simp add: sample_grid_def coord_names_def)
  have "slice_positions (jan_first 1991) (dec_last 1991) ?ts \<noteq> []"
    by (simp add: slice_positions_def in_slice_def jan_first_def dec_last_def)
  then obtain out where r: "monthly_anomaly_from_monthly sample_grid 1991 1991 = Inr out"
    using monthly_anomaly_result[OF h g2 g3, of 1991 1991] by simp
  have e: "monthly_anomaly_from_monthly sample_grid 1991 1991
           = monthly_anomaly_from_monthly
               (sample_grid\<lparr>data_vars := [(''temperature'', snd (hd (data_vars sample_grid)))]\<rparr>) 1991 1991"
    and n: "var_names out = [''t2m_mean_c'', ''t2m_anomaly_c'']"
    using anomaly_reads_first_variable_only[OF h, of 1991 1991 "''temperature''"] r by blast+
  have "\<exists>out. monthly_anomaly_from_monthly sample_grid 1991 1991 = Inr out
        \<and> monthly_anomaly_from_monthly
            (sample_grid\<lparr>data_vars := [(''temperature'', snd (hd (data_vars sample_grid)))]\<rparr>) 1991 1991 = Inr out
        \<and> var_names out = [''t2m_mean_c'', ''t2m_anomaly_c'']"
    using r e n by (intro exI[of _ out] conjI) simp_all
  with h l show ?thesis by (intro conjI)
qed

section \<open>Global aggregator\<close>

lemma stat_names_not_reserved:
  "''year'' \<notin> set (stat_names col)" "''month'' \<notin> set (stat_names col)" "''time'' \<notin> set (stat_names col)"
proof -
  have r: "s = t \<Longrightarrow> rev s = rev t" for s t :: string by simp
  show "''year'' \<notin> set (stat_names col)"
    by (auto simp: stat_names_def dest!: r)
  show "''month'' \<notin> set (stat_names col)"
    by (auto simp: stat_names_def dest!: r)
  show "''time'' \<notin> set (stat_names col)"
    by (auto simp: stat_names_def dest!: r)
qed

lemma stat_names_distinct: "distinct (stat_names col)"
  by (simp add: stat_names_def)

lemma stat_names_disjoint:
  assumes "a \<noteq> b"
  shows "set (stat_names a) \<inter> set (stat_names b) = {}"
proof -
  have r: "s = t \<Longrightarrow> rev s = rev t" for s t :: string by simp
  show ?thesis
    using assms by (auto simp: stat_names_def dest!: r)
qed

lemma distinct_stat_columns:
  "distinct cols \<Longrightarrow> distinct (concat (map stat_names cols))"
proof (induction cols)
  case Nil
  then show ?case by simp
next
  case (Cons c cols)
  have "set (stat_names c) \<inter> set (stat_names d) = {}" if "d \<in> set cols" for d
    using Cons.prems that by (intro stat_names_disjoint) auto
  then have "set (stat_names c) \<inter> set (concat (map stat_names cols)) = {}"
    by (simp add: Int_UN_distrib)
  moreover have "distinct (concat (map stat_names cols))" using Cons by simp
  ultimately show ?case
    by (simp add: stat_names_distinct)
qed

lemma singleton_list:
  assumes "distinct xs" "set xs = {x}"
  shows "xs = [x]"
proof (cases xs)
  case Nil
  then show ?thesis using assms by simp
next
  case (Cons a as)
  then have a: "a = x" "set as \<subseteq> {x}" "a \<notin> set as" using assms by auto
  then have "as = []" by (cases as) auto
  then show ?thesis using Cons a by simp
qed

lemma map_fst_filter: "map fst (filter (\<lambda>(n, a). P n) cs) = filter P (map fst cs)"
  by (induction cs) auto

lemma coords_time_only:
  assumes d: "distinct (coord_names ds)"
    and s: "set (coord_names ds) = {''time'', ''latitude'', ''longitude''}"
    and t: "map_of (coords ds) ''time'' = Some ax"
  shows "filter (\<lambda>(n, a). n \<noteq> ''latitude'' \<and> n \<noteq> ''longitude'') (coords ds) = [(''time'', ax)]"
proof -
  let ?F = "filter (\<lambda>(n, a). n \<noteq> ''latitude'' \<and> n \<noteq> ''longitude'') (coords ds)"
  have n: "map fst ?F = filter (\<lambda>n. n \<noteq> ''latitude'' \<and> n \<noteq> ''longitude'') (coord_names ds)"
    by (simp only: coord_names_def map_fst_filter)
  have "distinct (map fst ?F)" unfolding n using d by simp
  moreover have "set (map fst ?F) = {''time''}" unfolding n using s by auto
  ultimately have "map fst ?F = [''time'']" by (rule singleton_list)
  then obtain p where p: "?F = [p]" "fst p = ''time''" by (auto simp: map_eq_Cons_conv)
  have "p \<in> set ?F" unfolding p(1) by simp
  then have "p \<in> set (coords ds)" by (simp only: set_filter mem_Collect_eq)
  then have "(''time'', snd p) \<in> set (coords ds)" using p(2) by (metis prod.collapse)
  then have "map_of (coords ds) ''time'' = Some (snd p)"
    using d unfolding coord_names_def by (rule map_of_is_SomeI[rotated])
  with t have "snd p = ax" by simp
  with p show ?thesis by (cases p) simp
qed

lemma stats_of_result:
  assumes "map_of (data_vars ds) col = Some v"
    and "map_of (coords ds) ''latitude'' = Some la"
    and "map_of (coords ds) ''longitude'' = Some lo"
  shows "\<exists>d. stats_of ds col = Inr d
    \<and> coords d = filter (\<lambda>(n, a). n \<noteq> ''latitude'' \<and> n \<noteq> ''longitude'') (coords ds)
    \<and> var_names d = stat_names col"
  using assms
  by (simp add: stats_of_def getitem_def reduce_latlon_def var_names_def stat_names_def)

lemma stats_loop_result:
  assumes "set cols \<subseteq> set (var_names ds)"
    and "map_of (coords ds) ''latitude'' = Some la"
    and "map_of (coords ds) ''longitude'' = Some lo"
  shows "\<exists>ss. stats_loop ds cols = Inr ss
    \<and> list_all2 (\<lambda>c d. coords d = filter (\<lambda>(n, a). n \<noteq> ''latitude'' \<and> n \<noteq> ''longitude'') (coords ds)
                        \<and> var_names d = stat_names c) cols ss"
  using assms(1)
proof (induction cols)
  case Nil
  then show ?case by simp
next
  case (Cons c cols)
  then have "c \<in> fst ` set (data_vars ds)" by (simp add: var_names_def)
  then obtain v where "map_of (data_vars ds) c = Some v"
    by (metis map_of_eq_None_iff not_Some_eq)
  then obtain d where d: "stats_of ds c = Inr d"
    "coords d = filter (\<lambda>(n, a). n \<noteq> ''latitude'' \<and> n \<noteq> ''longitude'') (coords ds)"
    "var_names d = stat_names c"
    using stats_of_result[OF _ assms(2,3)] by blast
  obtain ss where ss: "stats_loop ds cols = Inr ss"
    "list_all2 (\<lambda>c d. coords d = filter (\<lambda>(n, a). n \<noteq> ''latitude'' \<and> n \<noteq> ''longitude'') (coords ds)
                        \<and> var_names d = stat_names c) cols ss"
    using Cons by auto
  show ?case using d ss by simp
qed

lemma merge_fold:
  assumes "list_all2 (\<lambda>c d. coords d = F \<and> var_names d = stat_names c) cols ss"
    and "coords acc = F \<or> coords acc = []"
    and "distinct (var_names acc @ concat (map stat_names cols))"
  shows "coords (foldl merge_two acc ss) = (if ss = [] then coords acc else F)
    \<and> var_names (foldl merge_two acc ss) = var_names acc @ concat (map stat_names cols)"
  using assms
proof (induction cols ss arbitrary: acc rule: list_all2_induct)
  case Nil
  then show ?case by simp
next
  case (Cons c cols d ss)
  let ?a = "merge_two acc d"
  have dis: "set (var_names acc) \<inter> set (stat_names c) = {}"
    using Cons.prems(2) by auto
  have c1: "coords ?a = F"
    using Cons.hyps(1) Cons.prems(1) by (auto simp: merge_two_def coord_names_def)
  have "fst w \<notin> set (var_names acc)" if "w \<in> set (data_vars d)" for w
  proof -
    have "fst w \<in> set (var_names d)" using that by (simp add: var_names_def)
    then have "fst w \<in> set (stat_names c)" using Cons.hyps(1) by simp
    with dis show ?thesis by blast
  qed
  then have "filter (\<lambda>v. fst v \<notin> set (var_names acc)) (data_vars d) = data_vars d"
    by (intro filter_True) blast
  then have v1: "var_names ?a = var_names acc @ stat_names c"
    using Cons.hyps(1) by (simp add: merge_two_def var_names_def)
  have "coords (foldl merge_two ?a ss) = (if ss = [] then coords ?a else F)
    \<and> var_names (foldl merge_two ?a ss) = var_names ?a @ concat (map stat_names cols)"
    by (rule Cons.IH) (use c1 v1 Cons.prems(2) in simp_all)
  then show ?case using c1 v1 by simp
qed

lemma row_of_time:
  "coords M = [(''time'', TimeAxis ts)] \<Longrightarrow> row_of M idx ''time'' = TimeCell (ts ! idx ''time'')"
  by (simp add: row_of_def)

lemma global_table:
  assumes c: "coords M = [(''time'', TimeAxis ts)]"
    and y: "''year'' \<notin> set (var_names M)"
    and m: "''month'' \<notin> set (var_names M)"
    and t: "''time'' \<notin> set (var_names M)"
  shows "(case with_year_month (to_dataframe_reset_index M) of
            Inl e \<Rightarrow> Inl e
          | Inr pdf \<Rightarrow>
              (case drop_columns [''time''] pdf of
                 Inl e \<Rightarrow> Inl e
               | Inr pdf' \<Rightarrow>
                   select_columns
                     ([''year'', ''month''] @ filter (\<lambda>c. c \<notin> set [''year'', ''month'']) (columns pdf'))
                     pdf'))
       = Inr \<lparr>columns = [''year'', ''month''] @ var_names M,
              rows = map (\<lambda>k. (k, (row_of M ((\<lambda>d. 0)(''time'' := k)))
                                    (''year'' := Int16Cell (word_of_int (year_of (ts ! k))),
                                     ''month'' := Int8Cell (word_of_int (int (month_of (ts ! k)))))))
                       [0..<length ts]\<rparr>"
proof -
  let ?pdf0 = "to_dataframe_reset_index M"
  let ?g = "\<lambda>k. row_of M ((\<lambda>d. 0)(''time'' := k))"
  have idx: "all_indices (coords M) = map (\<lambda>k. (\<lambda>d. 0)(''time'' := k)) [0..<length ts]"
    by (simp add: c)
  have rows0: "rows ?pdf0 = map (\<lambda>k. (k, ?g k)) [0..<length ts]"
    unfolding to_dataframe_reset_index_def idx
    using enumerate_map_upt[of 0 ?g "length ts"] by (simp add: comp_def)
  have cols0: "columns ?pdf0 = ''time'' # var_names M"
    by (simp add: to_dataframe_reset_index_def coord_names_def c)
  have tc: "list_all (\<lambda>(l, r). is_time_cell (r ''time'')) (rows ?pdf0)"
    unfolding rows0 by (simp add: list_all_iff row_of_time[OF c] is_time_cell_def)
  let ?pdf1 = "assign_column ''month'' (\<lambda>r. month_cell (r ''time''))
                 (assign_column ''year'' (\<lambda>r. year_cell (r ''time'')) ?pdf0)"
  have w: "with_year_month ?pdf0 = Inr ?pdf1"
    using tc by (simp add: with_year_month_def cols0)
  have cols1: "columns ?pdf1 = ''time'' # var_names M @ [''year'', ''month'']"
    using y m by (simp add: assign_column_def cols0)
  have rows1: "rows ?pdf1 = map (\<lambda>k. (k, (?g k)
                                    (''year'' := Int16Cell (word_of_int (year_of (ts ! k))),
                                     ''month'' := Int8Cell (word_of_int (int (month_of (ts ! k)))))))
                       [0..<length ts]"
    by (simp add: assign_column_def rows0 comp_def row_of_time[OF c] year_cell_def month_cell_def)
  let ?pdf2 = "?pdf1\<lparr>columns := var_names M @ [''year'', ''month'']\<rparr>"
  have "filter (\<lambda>c. c \<notin> set [''time'']) (columns ?pdf1) = var_names M @ [''year'', ''month'']"
    unfolding cols1 using t by (auto simp: filter_id_conv)
  then have d: "drop_columns [''time''] ?pdf1 = Inr ?pdf2"
    by (simp add: drop_columns_def cols1)
  have f: "filter (\<lambda>c. c \<notin> set [''year'', ''month'']) (columns ?pdf2) = var_names M"
    using y m by (auto simp: filter_id_conv)
  have sel: "select_columns ([''year'', ''month''] @ var_names M) ?pdf2
      = Inr (?pdf2\<lparr>columns := [''year'', ''month''] @ var_names M\<rparr>)"
    by (auto simp: select_columns_def)
  have fin: "?pdf2\<lparr>columns := [''year'', ''month''] @ var_names M\<rparr>
      = \<lparr>columns = [''year'', ''month''] @ var_names M, rows = rows ?pdf1\<rparr>"
    by simp
  show ?thesis
    unfolding w sum.case d f sel fin rows1 ..
qed

lemma sint16_year: "- 32768 \<le> y \<Longrightarrow> y \<le> 32767 \<Longrightarrow> sint (word_of_int y :: 16 word) = y"
  by (simp add: sint_sbintrunc' signed_take_bit_int_eq_self)

lemma sint8_month: "m \<le> 127 \<Longrightarrow> sint (word_of_int (int m) :: 8 word) = int m"
  unfolding sint_sbintrunc' by (simp add: signed_take_bit_int_eq_self)

lemma map_upt_nth: "map (\<lambda>k. f (xs ! k)) [0..<length xs] = map f xs"
  by (rule nth_equalityI) simp_all

text \<open>
  Claim C4. For a dataset on the grid (time, latitude, longitude) with a monthly time
  axis and a non-empty list of distinct requested variables of the dataset, the global
  aggregator returns a table with the columns \<^verbatim>\<open>year\<close>, \<^verbatim>\<open>month\<close> and then, for each
  requested variable in the order of the request, its mean, median, min and max; the
  column \<^verbatim>\<open>time\<close> is gone. The table has one row per time step, in the order of the
  time axis: its \<^verbatim>\<open>int16\<close> year and \<^verbatim>\<open>int8\<close> month are those of the time step, and no
  two rows share a (year, month).
\<close>

theorem global_stats_table_shape:
  assumes "cols \<noteq> []" and "distinct cols" and "set cols \<subseteq> set (var_names ds)"
    and "distinct (coord_names ds)"
    and "set (coord_names ds) = {''time'', ''latitude'', ''longitude''}"
    and "map_of (coords ds) ''time'' = Some (TimeAxis ts)"
    and "\<forall>t \<in> set ts. valid_timestamp t"
    and "distinct (map (\<lambda>t. (year_of t, month_of t)) ts)"
  shows "\<exists>pdf. compute_global_monthly_stats ds cols = Inr pdf
    \<and> columns pdf = [''year'', ''month''] @ concat (map stat_names cols)
    \<and> ''time'' \<notin> set (columns pdf)
    \<and> length (rows pdf) = length ts
    \<and> map (\<lambda>(l, r). r ''year'') (rows pdf) = map (\<lambda>t. Int16Cell (word_of_int (year_of t))) ts
    \<and> map (\<lambda>(l, r). r ''month'') (rows pdf) = map (\<lambda>t. Int8Cell (word_of_int (int (month_of t)))) ts
    \<and> map (\<lambda>(l, r). (cell_int (r ''year''), cell_int (r ''month''))) (rows pdf)
        = map (\<lambda>t. (year_of t, int (month_of t))) ts
    \<and> distinct (map (\<lambda>(l, r). (cell_int (r ''year''), cell_int (r ''month''))) (rows pdf))"
proof -
  let ?F = "filter (\<lambda>(n, a). n \<noteq> ''latitude'' \<and> n \<noteq> ''longitude'') (coords ds)"
  let ?S = "concat (map stat_names cols)"
  have "''latitude'' \<in> fst ` set (coords ds)" "''longitude'' \<in> fst ` set (coords ds)"
    using assms(5) by (simp_all add: coord_names_def)
  then obtain la lo where la: "map_of (coords ds) ''latitude'' = Some la"
    and lo: "map_of (coords ds) ''longitude'' = Some lo"
    by (meson map_of_eq_None_iff not_Some_eq)
  obtain ss where ss: "stats_loop ds cols = Inr ss"
    and all2: "list_all2 (\<lambda>c d. coords d = ?F \<and> var_names d = stat_names c) cols ss"
    using stats_loop_result[OF assms(3) la lo] by blast
  have "length ss = length cols" using all2 by (simp add: list_all2_lengthD)
  then have ne: "ss \<noteq> []" using assms(1) by auto
  let ?M = "xr_merge ss"
  have acc: "coords \<lparr>coords = [], data_vars = []\<rparr> = ?F \<or> coords \<lparr>coords = [], data_vars = []\<rparr> = []"
    by simp
  have dacc: "distinct (var_names \<lparr>coords = [], data_vars = []\<rparr> @ ?S)"
    using distinct_stat_columns[OF assms(2)] by (simp add: var_names_def)
  have mf: "coords ?M = (if ss = [] then coords \<lparr>coords = [], data_vars = []\<rparr> else ?F)
      \<and> var_names ?M = var_names \<lparr>coords = [], data_vars = []\<rparr> @ ?S"
    unfolding xr_merge_def by (rule merge_fold[OF all2 acc dacc])
  have cM: "coords ?M = [(''time'', TimeAxis ts)]"
    using mf ne coords_time_only[OF assms(4,5,6)] by simp
  have vM: "var_names ?M = ?S"
    using mf by (simp add: var_names_def)
  have res: "''year'' \<notin> set ?S" "''month'' \<notin> set ?S" "''time'' \<notin> set ?S"
    using stat_names_not_reserved by auto
  let ?G = "\<lambda>k. (row_of ?M ((\<lambda>d. 0)(''time'' := k)))
                                    (''year'' := Int16Cell (word_of_int (year_of (ts ! k))),
                                     ''month'' := Int8Cell (word_of_int (int (month_of (ts ! k)))))"
  let ?rows = "map (\<lambda>k. (k, ?G k)) [0..<length ts]"
  let ?pdf = "\<lparr>columns = [''year'', ''month''] @ ?S, rows = ?rows\<rparr>"
  have r: "compute_global_monthly_stats ds cols = Inr ?pdf"
    unfolding compute_global_monthly_stats_def ss sum.case
    by (rule global_table[OF cM, unfolded vM, OF res])
  have yc0: "map (\<lambda>(l, r). r ''year'') ?rows
      = map (\<lambda>k. Int16Cell (word_of_int (year_of (ts ! k)))) [0..<length ts]"
    by (simp add: comp_def)
  have yc: "map (\<lambda>(l, r). r ''year'') ?rows = map (\<lambda>t. Int16Cell (word_of_int (year_of t))) ts"
    unfolding yc0 by (rule map_upt_nth)
  have mc0: "map (\<lambda>(l, r). r ''month'') ?rows
      = map (\<lambda>k. Int8Cell (word_of_int (int (month_of (ts ! k))))) [0..<length ts]"
    by (simp add: comp_def)
  have mc: "map (\<lambda>(l, r). r ''month'') ?rows = map (\<lambda>t. Int8Cell (word_of_int (int (month_of t)))) ts"
    unfolding mc0 by (rule map_upt_nth)
  have ym0: "map (\<lambda>(l, r). (cell_int (r ''year''), cell_int (r ''month''))) ?rows
      = map (\<lambda>k. (sint (word_of_int (year_of (ts ! k)) :: 16 word),
                   sint (word_of_int (int (month_of (ts ! k))) :: 8 word))) [0..<length ts]"
    by (simp add: comp_def cell_int_def)
  have ym1: "map (\<lambda>k. (sint (word_of_int (year_of (ts ! k)) :: 16 word),
                   sint (word_of_int (int (month_of (ts ! k))) :: 8 word))) [0..<length ts]
      = map (\<lambda>k. (year_of (ts ! k), int (month_of (ts ! k)))) [0..<length ts]"
  proof (rule map_cong[OF refl])
    fix i assume "i \<in> set [0..<length ts]"
    then have v: "valid_timestamp (ts ! i)" using assms(7) by simp
    have a: "sint (word_of_int (year_of (ts ! i)) :: 16 word) = year_of (ts ! i)"
      by (rule sint16_year) (use v in \<open>simp_all add: valid_timestamp_def\<close>)
    have b: "sint (word_of_int (int (month_of (ts ! i))) :: 8 word) = int (month_of (ts ! i))"
      by (rule sint8_month) (use v in \<open>simp add: valid_timestamp_def\<close>)
    show "(sint (word_of_int (year_of (ts ! i)) :: 16 word),
                   sint (word_of_int (int (month_of (ts ! i))) :: 8 word))
        = (year_of (ts ! i), int (month_of (ts ! i)))"
      by (simp only: a b)
  qed
  have ym: "map (\<lambda>(l, r). (cell_int (r ''year''), cell_int (r ''month''))) ?rows
        = map (\<lambda>t. (year_of t, int (month_of t))) ts"
    unfolding ym0 ym1 by (rule map_upt_nth)
  have "inj (\<lambda>p :: int \<times> nat. (fst p, int (snd p)))" by (auto simp: inj_on_def)
  then have "distinct (map (\<lambda>p. (fst p, int (snd p))) (map (\<lambda>t. (year_of t, month_of t)) ts))"
    using assms(8) by (simp only: distinct_map) (metis inj_on_subset subset_UNIV)
  then have "distinct (map (\<lambda>t. (year_of t, int (month_of t))) ts)"
    by (simp add: comp_def)
  then have di: "distinct (map (\<lambda>(l, r). (cell_int (r ''year''), cell_int (r ''month''))) ?rows)"
    by (simp only: ym)
  show ?thesis
  proof (intro exI[of _ ?pdf] conjI)
    show "compute_global_monthly_stats ds cols = Inr ?pdf" by (rule r)
    show "columns ?pdf = [''year'', ''month''] @ ?S" by simp
    show "''time'' \<notin> set (columns ?pdf)" using res(3) by simp
    show "length (rows ?pdf) = length ts" by simp
    show "map (\<lambda>(l, r). r ''year'') (rows ?pdf) = map (\<lambda>t. Int16Cell (word_of_int (year_of t))) ts"
      using yc by (simp only: dataframe.select_convs)
    show "map (\<lambda>(l, r). r ''month'') (rows ?pdf) = map (\<lambda>t. Int8Cell (word_of_int (int (month_of t)))) ts"
      using mc by (simp only: dataframe.select_convs)
    show "map (\<lambda>(l, r). (cell_int (r ''year''), cell_int (r ''month''))) (rows ?pdf)
        = map (\<lambda>t. (year_of t, int (month_of t))) ts"
      using ym by (simp only: dataframe.select_convs)
    show "distinct (map (\<lambda>(l, r). (cell_int (r ''year''), cell_int (r ''month''))) (rows ?pdf))"
      using di by (simp only: dataframe.select_convs)
  qed
qed

text \<open>
  The sample field and two requested variables.
\<close>

theorem global_stats_table_shape_witness:
  "[''t2m'', ''skt''] \<noteq> [] \<and> distinct [''t2m'', ''skt'']
   \<and> set [''t2m'', ''skt''] \<subseteq> set (var_names sample_grid)
   \<and> coord_names sample_grid = [''time'', ''latitude'', ''longitude'']
   \<and> map_of (coords sample_grid) ''time''
       = Some (TimeAxis [(1991, 1, 1), (1991, 2, 1), (1992, 1, 1), (1992, 2, 1)])
   \<and> list_all valid_timestamp [(1991, 1, 1), (1991, 2, 1), (1992, 1, 1), (1992, 2, 1)]
   \<and> (\<exists>pdf. compute_global_monthly_stats sample_grid [''t2m'', ''skt''] = Inr pdf
        \<and> columns pdf = [''year'', ''month'', ''t2m_mean'', ''t2m_median'', ''t2m_min'', ''t2m_max'',
                            ''skt_mean'', ''skt_median'', ''skt_min'', ''skt_max'']
        \<and> length (rows pdf) = 4
        \<and> map (\<lambda>(l, r). (cell_int (r ''year''), cell_int (r ''month''))) (rows pdf)
            = [(1991, 1), (1991, 2), (1992, 1), (1992, 2)])"
proof -
  let ?ts = "[(1991, 1, 1), (1991, 2, 1), (1992, 1, 1), (1992, 2, 1)] :: timestamp list"
  have h1: "[''t2m'', ''skt''] \<noteq> []" and h2: "distinct [''t2m'', ''skt'']" by simp_all
  have h3: "set [''t2m'', ''skt''] \<subseteq> set (var_names sample_grid)"
    by (simp add: sample_grid_def var_names_def)
  have n: "coord_names sample_grid = [''time'', ''latitude'', ''longitude'']"
    by (simp add: sample_grid_def coord_names_def)
  have h4: "distinct (coord_names sample_grid)" unfolding n by simp
  have h5: "set (coord_names sample_grid) = {''time'', ''latitude'', ''longitude''}" unfolding n by simp
  have h6: "map_of (coords sample_grid) ''time'' = Some (TimeAxis ?ts)"
    by (simp add: sample_grid_def)
  have v: "list_all valid_timestamp ?ts"
    by (simp add: valid_timestamp_def year_of_def month_of_def day_of_def)
  then have h7: "\<forall>t \<in> set ?ts. valid_timestamp t" by (simp only: list_all_iff)
  have h8: "distinct (map (\<lambda>t. (year_of t, month_of t)) ?ts)"
    by (simp add: year_of_def month_of_def)
  obtain pdf where r: "compute_global_monthly_stats sample_grid [''t2m'', ''skt''] = Inr pdf"
    and c: "columns pdf = [''year'', ''month''] @ concat (map stat_names [''t2m'', ''skt''])"
    and l: "length (rows pdf) = length ?ts"
    and ym: "map (\<lambda>(l, r). (cell_int (r ''year''), cell_int (r ''month''))) (rows pdf)
        = map (\<lambda>t. (year_of t, int (month_of t))) ?ts"
    using global_stats_table_shape[OF h1 h2 h3 h4 h5 h6 h7 h8] by blast
  have c': "columns pdf = [''year'', ''month'', ''t2m_mean'', ''t2m_median'', ''t2m_min'', ''t2m_max'',
                            ''skt_mean'', ''skt_median'', ''skt_min'', ''skt_max'']"
    unfolding c by (simp add: stat_names_def)
  have l': "length (rows pdf) = 4" unfolding l by simp
  have ym': "map (\<lambda>(l, r). (cell_int (r ''year''), cell_int (r ''month''))) (rows pdf)
            = [(1991, 1), (1991, 2), (1992, 1), (1992, 2)]"
    unfolding ym by (simp add: year_of_def month_of_def)
  have "\<exists>pdf. compute_global_monthly_stats sample_grid [''t2m'', ''skt''] = Inr pdf
        \<and> columns pdf = [''year'', ''month'', ''t2m_mean'', ''t2m_median'', ''t2m_min'', ''t2m_max'',
                            ''skt_mean'', ''skt_median'', ''skt_min'', ''skt_max'']
        \<and> length (rows pdf) = 4
        \<and> map (\<lambda>(l, r). (cell_int (r ''year''), cell_int (r ''month''))) (rows pdf)
            = [(1991, 1), (1991, 2), (1992, 1), (1992, 2)]"
    using r c' l' ym' by (intro exI[of _ pdf] conjI)
  with h1 h2 h3 n h6 v show ?thesis by (intro conjI)
qed

end
